theory Spec2Isabelle
  imports Main
begin

section \<open>The imaging library, the console and the world of the script\<close>

text \<open>
  The script \<^verbatim>\<open>resize_logo.py\<close> is one function, \<^verbatim>\<open>resize_image\<close>, around three
  calls into the imaging library: \<^verbatim>\<open>Image.open\<close>, \<^verbatim>\<open>Image.resize\<close> and
  \<^verbatim>\<open>Image.save\<close>. The library is not part of the repository, so it is a parameter of
  the model: a record of the functions the script calls. What the script itself does (the
  order of the calls, the arguments it passes, the \<^verbatim>\<open>with\<close> block, the two
  \<^verbatim>\<open>except\<close> clauses, the three messages and where each \<^verbatim>\<open>print\<close> stands) is
  translated from the source.
\<close>

type_synonym path = string

text \<open>A size is a Python tuple of two integers, \<^verbatim>\<open>(width, height)\<close>.\<close>

type_synonym dims = "int \<times> int"

text \<open>The members of \<^verbatim>\<open>Image.Resampling\<close>.\<close>

datatype Resampling = NEAREST | LANCZOS | BILINEAR | BICUBIC | BOX | HAMMING

text \<open>
  A raised exception, sorted by what the two \<^verbatim>\<open>except\<close> clauses of the script test:
  an instance of \<^verbatim>\<open>FileNotFoundError\<close>; an instance of \<^verbatim>\<open>Exception\<close> that is not
  a \<^verbatim>\<open>FileNotFoundError\<close>; or an exception outside \<^verbatim>\<open>Exception\<close>
  (\<^verbatim>\<open>KeyboardInterrupt\<close>, \<^verbatim>\<open>SystemExit\<close>), which neither clause catches. Each carries
  the text that \<^verbatim>\<open>str(e)\<close> gives.
\<close>

datatype pyexc = FileNotFoundError string | OtherException string | NonException string

fun str :: "pyexc \<Rightarrow> string" where
  "str (FileNotFoundError m) = m"
| "str (OtherException m) = m"
| "str (NonException m) = m"

text \<open>
  What lies outside the script, over a type \<open>'fs\<close> of file systems and a type \<open>'img\<close> of
  image objects. The library:
  \<^verbatim>\<open>Image.open\<close> reads the file system and returns an image or raises;
  \<^verbatim>\<open>img.resize(size, filter)\<close> returns a new image or raises;
  \<^verbatim>\<open>img.save(path)\<close> returns the file system it leaves behind, together with the
  exception when it raises (a failed save may already have written);
  \<^verbatim>\<open>img.size\<close> is the size of an image.
  The console: \<open>stdout_encodes\<close> tells which characters beyond ASCII the encoding of
  \<^verbatim>\<open>sys.stdout\<close> has, and \<open>encode_error\<close> is the text of the
  \<^verbatim>\<open>UnicodeEncodeError\<close> that \<^verbatim>\<open>print\<close> raises on a text it cannot encode.
\<close>

record ('fs, 'img) pil =
  Image_open :: "path \<Rightarrow> 'fs \<Rightarrow> pyexc + 'img"
  resize :: "'img \<Rightarrow> dims \<Rightarrow> Resampling \<Rightarrow> pyexc + 'img"
  save :: "'img \<Rightarrow> path \<Rightarrow> 'fs \<Rightarrow> pyexc option \<times> 'fs"
  img_size :: "'img \<Rightarrow> dims"
  stdout_encodes :: "char \<Rightarrow> bool"
  encode_error :: "string \<Rightarrow> string"

text \<open>The library calls the script makes, in the order it makes them.\<close>

datatype 'img call =
    is_open: Call_open path
  | is_resize: Call_resize 'img dims Resampling
  | is_save: Call_save 'img path

text \<open>
  The world: the file system, the images that were opened and are not yet closed, the lines
  printed on the console, and the log of library calls.
\<close>

record ('fs, 'img) world =
  fs :: 'fs
  opened :: "'img list"
  stdout :: "string list"
  calls :: "'img call list"

section \<open>The script\<close>

text \<open>
  \<^verbatim>\<open>print\<close> writes a line or raises. It raises \<^verbatim>\<open>UnicodeEncodeError\<close>, an instance of
  \<^verbatim>\<open>Exception\<close>, when the text has a character that the encoding of the console lacks,
  and then writes nothing; ASCII characters are in every encoding, so the not-found
  message of line 10 is always written, while the texts of lines 8 and 12 depend on the
  output path and on the exception. The result is the exception raised, if any, and the
  world. The console itself is taken to be open and writable.
\<close>

definition is_ascii :: "char \<Rightarrow> bool" where
  "is_ascii c = (of_char c < (128::nat))"

definition printable :: "('fs, 'img) pil \<Rightarrow> string \<Rightarrow> bool" where
  "printable lib s = list_all (\<lambda>c. is_ascii c \<or> stdout_encodes lib c) s"

definition print ::
  "('fs, 'img) pil \<Rightarrow> string \<Rightarrow> ('fs, 'img) world \<Rightarrow> pyexc option \<times> ('fs, 'img) world" where
  "print lib s w =
     (if printable lib s then (None, w\<lparr>stdout := stdout w @ [s]\<rparr>)
      else (Some (OtherException (encode_error lib s)), w))"

definition log_call :: "'img call \<Rightarrow> ('fs, 'img) world \<Rightarrow> ('fs, 'img) world" where
  "log_call c w = w\<lparr>calls := calls w @ [c]\<rparr>"

text \<open>
  Entering the \<^verbatim>\<open>with\<close> block holds the opened image; leaving it, normally or by an
  exception, runs the image's \<^verbatim>\<open>__exit__\<close>, which closes it and lets the exception pass.
\<close>

definition enter :: "'img \<Rightarrow> ('fs, 'img) world \<Rightarrow> ('fs, 'img) world" where
  "enter img w = w\<lparr>opened := img # opened w\<rparr>"

definition exit :: "'img \<Rightarrow> ('fs, 'img) world \<Rightarrow> ('fs, 'img) world" where
  "exit img w = w\<lparr>opened := remove1 img (opened w)\<rparr>"

text \<open>
  The body of the \<^verbatim>\<open>with\<close> block (lines 6 to 8). The result is the exception that
  leaves the block, if any, and the world at that point. The \<^verbatim>\<open>print\<close> of line 8 is
  part of the body: an exception it raises leaves the block like one of the library.
\<close>

definition with_body ::
  "('fs, 'img) pil \<Rightarrow> 'img \<Rightarrow> path \<Rightarrow> dims \<Rightarrow> ('fs, 'img) world
     \<Rightarrow> pyexc option \<times> ('fs, 'img) world" where
  "with_body lib img output_path sz w =
     (let w1 = log_call (Call_resize img sz LANCZOS) w in
      case resize lib img sz LANCZOS of
        Inl e \<Rightarrow> (Some e, w1)
      | Inr resized_img \<Rightarrow>
          (let w2 = log_call (Call_save resized_img output_path) w1 in
           case save lib resized_img output_path (fs w2) of
             (Some e, fs') \<Rightarrow> (Some e, w2\<lparr>fs := fs'\<rparr>)
           | (None, fs') \<Rightarrow>
               print lib (''Success! Image saved as '' @ output_path) (w2\<lparr>fs := fs'\<rparr>)))"

text \<open>The \<^verbatim>\<open>try\<close> block (lines 5 to 8): open, then the \<^verbatim>\<open>with\<close> block around the body.\<close>

definition try_block ::
  "('fs, 'img) pil \<Rightarrow> path \<Rightarrow> path \<Rightarrow> dims \<Rightarrow> ('fs, 'img) world
     \<Rightarrow> pyexc option \<times> ('fs, 'img) world" where
  "try_block lib input_path output_path sz w =
     (let w0 = log_call (Call_open input_path) w in
      case Image_open lib input_path (fs w0) of
        Inl e \<Rightarrow> (Some e, w0)
      | Inr img \<Rightarrow>
          (case with_body lib img output_path sz (enter img w0) of
             (r, w') \<Rightarrow> (r, exit img w')))"

text \<open>
  \<^verbatim>\<open>def resize_image(input_path, output_path, size=(512, 512))\<close>: the size argument is
  optional, \<open>None\<close> standing for a call that omits it.
\<close>

definition default_size :: dims where
  "default_size = (512, 512)"

fun size_or_default :: "dims option \<Rightarrow> dims" where
  "size_or_default None = default_size"
| "size_or_default (Some s) = s"

text \<open>
  The \<^verbatim>\<open>except\<close> clauses (lines 9 to 12), tried in the order of the source on the
  exception that left the \<^verbatim>\<open>try\<close> block; \<^verbatim>\<open>{e}\<close> in the second message is
  \<^verbatim>\<open>str(e)\<close>. An exception that neither clause matches leaves the function, and so
  does an exception that the \<^verbatim>\<open>print\<close> of a clause raises: nothing guards lines 10
  and 12.
\<close>

fun except_clauses ::
  "('fs, 'img) pil \<Rightarrow> pyexc option \<times> ('fs, 'img) world \<Rightarrow> pyexc option \<times> ('fs, 'img) world" where
  "except_clauses lib (None, w) = (None, w)"
| "except_clauses lib (Some (FileNotFoundError m), w) =
     print lib ''Error: 'logo.png' not found.'' w"
| "except_clauses lib (Some (OtherException m), w) =
     print lib (''An error occurred: '' @ str (OtherException m)) w"
| "except_clauses lib (Some (NonException m), w) = (Some (NonException m), w)"

text \<open>
  The function: its result is the exception that leaves it (\<open>None\<close> when it returns)
  and the world it leaves.
\<close>

definition resize_image ::
  "('fs, 'img) pil \<Rightarrow> path \<Rightarrow> path \<Rightarrow> dims option \<Rightarrow> ('fs, 'img) world
     \<Rightarrow> pyexc option \<times> ('fs, 'img) world" where
  "resize_image lib input_path output_path size_arg w =
     except_clauses lib (try_block lib input_path output_path (size_or_default size_arg) w)"

text \<open>
  The module level: \<^verbatim>\<open>if __name__ == "__main__": resize_image('logo.png', 'logo_512.png')\<close>.
\<close>

definition script ::
  "string \<Rightarrow> ('fs, 'img) pil \<Rightarrow> ('fs, 'img) world \<Rightarrow> pyexc option \<times> ('fs, 'img) world" where
  "script name lib w =
     (if name = ''__main__'' then resize_image lib ''logo.png'' ''logo_512.png'' None w
      else (None, w))"

text \<open>The calls made between a world and a later one.\<close>

definition new_calls :: "('fs, 'img) world \<Rightarrow> ('fs, 'img) world \<Rightarrow> 'img call list" where
  "new_calls w w' = drop (length (calls w)) (calls w')"

section \<open>What the theorems ask of the library and the console\<close>

text \<open>
  The script computes no pixel and no size itself. These properties of the library and the
  console are hypotheses of the theorems that need them. First: a resize to a positive
  size, when it returns, returns an image of exactly that size.
\<close>

definition resize_exact :: "('fs, 'img) pil \<Rightarrow> bool" where
  "resize_exact lib \<longleftrightarrow>
     (\<forall>img w h f r. 0 < w \<and> 0 < h \<and> resize lib img (w, h) f = Inr r
        \<longrightarrow> img_size lib r = (w, h))"

text \<open>
  Second: a save that completes leaves at its path a file that opens as an image of the
  size of the image saved.
\<close>

definition reads_back :: "('fs, 'img) pil \<Rightarrow> bool" where
  "reads_back lib \<longleftrightarrow>
     (\<forall>img p f f'. save lib img p f = (None, f')
        \<longrightarrow> (\<exists>out. Image_open lib p f' = Inr out \<and> img_size lib out = img_size lib img))"

text \<open>
  Third: whatever the library raises is one of the two error kinds of the script, a
  \<^verbatim>\<open>FileNotFoundError\<close> or another instance of \<^verbatim>\<open>Exception\<close>.
\<close>

fun is_Exception :: "pyexc \<Rightarrow> bool" where
  "is_Exception (FileNotFoundError m) = True"
| "is_Exception (OtherException m) = True"
| "is_Exception (NonException m) = False"

definition raises_Exceptions :: "('fs, 'img) pil \<Rightarrow> bool" where
  "raises_Exceptions lib \<longleftrightarrow>
     (\<forall>p f e. Image_open lib p f = Inl e \<longrightarrow> is_Exception e) \<and>
     (\<forall>img s flt e. resize lib img s flt = Inl e \<longrightarrow> is_Exception e) \<and>
     (\<forall>img p f e f'. save lib img p f = (Some e, f') \<longrightarrow> is_Exception e)"

text \<open>Fourth: the encoding of the console has every character, as UTF-8 has.\<close>

definition encodes_all :: "('fs, 'img) pil \<Rightarrow> bool" where
  "encodes_all lib \<longleftrightarrow> (\<forall>c. stdout_encodes lib c)"

text \<open>
  The first exception that the three library calls of the script raise, \<open>None\<close> when open,
  resample and save all complete: the outcome that the message printed is to report.
\<close>

definition first_failure ::
  "('fs, 'img) pil \<Rightarrow> path \<Rightarrow> path \<Rightarrow> dims \<Rightarrow> 'fs \<Rightarrow> pyexc option" where
  "first_failure lib input_path output_path sz f =
     (case Image_open lib input_path f of
        Inl e \<Rightarrow> Some e
      | Inr img \<Rightarrow>
          (case resize lib img sz LANCZOS of
             Inl e \<Rightarrow> Some e
           | Inr res \<Rightarrow> fst (save lib res output_path f)))"

section \<open>A small library and file system to run the script on\<close>

text \<open>
  A concrete instance of the library, for running the model on concrete inputs. A file
  system is a list of existing directories (the empty path is the current one) and the
  image files, each reduced to the size of the image it holds; an image object is its size.
  Opening a path with no file raises \<^verbatim>\<open>FileNotFoundError\<close>; opening a directory, or
  saving at the path of one, raises \<^verbatim>\<open>IsADirectoryError\<close>; saving into a directory
  that does not exist raises \<^verbatim>\<open>FileNotFoundError\<close>, as Python's
  \<^verbatim>\<open>open(path, "w+b")\<close> does; a resize to a size that is not positive raises
  \<^verbatim>\<open>ValueError\<close>. The console is an ASCII one.
\<close>

record sim_fs =
  dirs :: "path list"
  images :: "(path \<times> dims) list"

definition dirname :: "path \<Rightarrow> path" where
  "dirname p = rev (drop 1 (dropWhile (\<lambda>c. c \<noteq> CHR ''/'') (rev p)))"

definition no_such_file :: "path \<Rightarrow> pyexc" where
  "no_such_file p =
     FileNotFoundError (''[Errno 2] No such file or directory: '' @ [CHR 0x27] @ p @ [CHR 0x27])"

definition is_a_directory :: "path \<Rightarrow> pyexc" where
  "is_a_directory p =
     OtherException (''[Errno 21] Is a directory: '' @ [CHR 0x27] @ p @ [CHR 0x27])"

definition sim_open :: "path \<Rightarrow> sim_fs \<Rightarrow> pyexc + dims" where
  "sim_open p f =
     (if p \<noteq> [] \<and> p \<in> set (dirs f) then Inl (is_a_directory p)
      else case map_of (images f) p of None \<Rightarrow> Inl (no_such_file p) | Some d \<Rightarrow> Inr d)"

definition sim_resize :: "dims \<Rightarrow> dims \<Rightarrow> Resampling \<Rightarrow> pyexc + dims" where
  "sim_resize img sz flt =
     (if fst sz \<le> 0 \<or> snd sz \<le> 0 then Inl (OtherException ''height and width must be > 0'')
      else Inr sz)"

definition sim_save :: "dims \<Rightarrow> path \<Rightarrow> sim_fs \<Rightarrow> pyexc option \<times> sim_fs" where
  "sim_save img p f =
     (if p \<in> set (dirs f) then (Some (is_a_directory p), f)
      else if dirname p \<in> set (dirs f) then (None, f\<lparr>images := (p, img) # images f\<rparr>)
      else (Some (no_such_file p), f))"

definition sim_pil :: "(sim_fs, dims) pil" where
  "sim_pil = \<lparr>Image_open = sim_open, resize = sim_resize, save = sim_save, img_size = (\<lambda>d. d),
     stdout_encodes = (\<lambda>c. False),
     encode_error = (\<lambda>s. ''ascii codec can't encode character: ordinal not in range(128)'')\<rparr>"

text \<open>The same library with a console whose encoding has every character.\<close>

definition utf8_pil :: "(sim_fs, dims) pil" where
  "utf8_pil = sim_pil\<lparr>stdout_encodes := (\<lambda>c. True)\<rparr>"

text \<open>A world whose current directory holds one image, \<^verbatim>\<open>logo.png\<close>, of the given size.\<close>

definition sim_world :: "dims \<Rightarrow> (sim_fs, dims) world" where
  "sim_world d =
     \<lparr>fs = \<lparr>dirs = [[]], images = [(''logo.png'', d)]\<rparr>, opened = [], stdout = [], calls = []\<rparr>"

text \<open>
  The same world with one more directory, whose name has a character beyond ASCII
  (\<^verbatim>\<open>0xE9\<close>, e with an acute accent).
\<close>

definition cafe :: path where
  "cafe = ''caf'' @ [CHR 0xE9]"

definition cafe_world :: "dims \<Rightarrow> (sim_fs, dims) world" where
  "cafe_world d =
     \<lparr>fs = \<lparr>dirs = [[], cafe], images = [(''logo.png'', d)]\<rparr>, opened = [], stdout = [], calls = []\<rparr>"

section \<open>Printing\<close>

lemma print_printable:
  "printable lib s \<Longrightarrow> print lib s w = (None, w\<lparr>stdout := stdout w @ [s]\<rparr>)"
  by (simp add: print_def)

lemma print_not_printable:
  "\<not> printable lib s \<Longrightarrow> print lib s w = (Some (OtherException (encode_error lib s)), w)"
  by (simp add: print_def)

lemma print_fs: "fs (snd (print lib s w)) = fs w"
  by (simp add: print_def)

lemma print_calls: "calls (snd (print lib s w)) = calls w"
  by (simp add: print_def)

lemma print_opened: "opened (snd (print lib s w)) = opened w"
  by (simp add: print_def)

lemma encodes_all_printable: "encodes_all lib \<Longrightarrow> printable lib s"
  by (simp add: encodes_all_def printable_def list_all_iff)

text \<open>The not-found message and the success message of the main program are ASCII.\<close>

lemma not_found_printable: "printable lib ''Error: 'logo.png' not found.''"
  by (simp add: printable_def is_ascii_def)

lemma success_logo_512_printable: "printable lib ''Success! Image saved as logo_512.png''"
  by (simp add: printable_def is_ascii_def)

section \<open>The paths through the script\<close>

lemma try_block_open_raises:
  assumes "Image_open lib inp (fs w) = Inl e"
  shows "try_block lib inp outp sz w = (Some e, w\<lparr>calls := calls w @ [Call_open inp]\<rparr>)"
  using assms by (simp add: try_block_def log_call_def)

lemma try_block_resize_raises:
  assumes "Image_open lib inp (fs w) = Inr img" and "resize lib img sz LANCZOS = Inl e"
  shows "try_block lib inp outp sz w =
           (Some e, w\<lparr>calls := calls w @ [Call_open inp, Call_resize img sz LANCZOS]\<rparr>)"
  using assms
  by (simp add: try_block_def with_body_def log_call_def enter_def exit_def)

lemma try_block_save_raises:
  assumes "Image_open lib inp (fs w) = Inr img" and "resize lib img sz LANCZOS = Inr res"
    and "save lib res outp (fs w) = (Some e, f')"
  shows "try_block lib inp outp sz w =
           (Some e, w\<lparr>fs := f',
              calls := calls w @ [Call_open inp, Call_resize img sz LANCZOS, Call_save res outp]\<rparr>)"
  using assms
  by (simp add: try_block_def with_body_def log_call_def enter_def exit_def)

text \<open>After a save that completes, the block ends with the \<^verbatim>\<open>print\<close> of line 8.\<close>

lemma try_block_saved:
  assumes "Image_open lib inp (fs w) = Inr img" and "resize lib img sz LANCZOS = Inr res"
    and "save lib res outp (fs w) = (None, f')"
  shows "try_block lib inp outp sz w =
           print lib (''Success! Image saved as '' @ outp)
             (w\<lparr>fs := f',
                calls := calls w @ [Call_open inp, Call_resize img sz LANCZOS, Call_save res outp]\<rparr>)"
  using assms
  by (simp add: try_block_def with_body_def log_call_def enter_def exit_def print_def)

lemma try_block_success:
  assumes "Image_open lib inp (fs w) = Inr img" and "resize lib img sz LANCZOS = Inr res"
    and "save lib res outp (fs w) = (None, f')"
    and "printable lib (''Success! Image saved as '' @ outp)"
  shows "try_block lib inp outp sz w =
           (None, w\<lparr>fs := f',
              stdout := stdout w @ [''Success! Image saved as '' @ outp],
              calls := calls w @ [Call_open inp, Call_resize img sz LANCZOS, Call_save res outp]\<rparr>)"
  unfolding try_block_saved [OF assms(1-3)] print_printable [OF assms(4)]
  by simp

text \<open>Every run of the \<^verbatim>\<open>try\<close> block is one of these four.\<close>

lemma try_block_cases:
  obtains
    (open_raises) e where "Image_open lib inp (fs w) = Inl e"
      and "try_block lib inp outp sz w = (Some e, w\<lparr>calls := calls w @ [Call_open inp]\<rparr>)"
  | (resize_raises) img e where "Image_open lib inp (fs w) = Inr img"
      and "resize lib img sz LANCZOS = Inl e"
      and "try_block lib inp outp sz w =
             (Some e, w\<lparr>calls := calls w @ [Call_open inp, Call_resize img sz LANCZOS]\<rparr>)"
  | (save_raises) img res e f' where "Image_open lib inp (fs w) = Inr img"
      and "resize lib img sz LANCZOS = Inr res"
      and "save lib res outp (fs w) = (Some e, f')"
      and "try_block lib inp outp sz w =
             (Some e, w\<lparr>fs := f',
                calls := calls w @ [Call_open inp, Call_resize img sz LANCZOS, Call_save res outp]\<rparr>)"
  | (saved) img res f' where "Image_open lib inp (fs w) = Inr img"
      and "resize lib img sz LANCZOS = Inr res"
      and "save lib res outp (fs w) = (None, f')"
      and "try_block lib inp outp sz w =
             print lib (''Success! Image saved as '' @ outp)
               (w\<lparr>fs := f',
                  calls := calls w @ [Call_open inp, Call_resize img sz LANCZOS, Call_save res outp]\<rparr>)"
proof (cases "Image_open lib inp (fs w)")
  case (Inl e)
  then show ?thesis
    by (rule open_raises) (rule try_block_open_raises [OF Inl])
next
  case op: (Inr img)
  show ?thesis
  proof (cases "resize lib img sz LANCZOS")
    case (Inl e)
    show ?thesis
      by (rule resize_raises [OF op Inl]) (rule try_block_resize_raises [OF op Inl])
  next
    case rs: (Inr res)
    obtain r f' where sv: "save lib res outp (fs w) = (r, f')"
      by (cases "save lib res outp (fs w)")
    show ?thesis
    proof (cases r)
      case None
      with sv have sv': "save lib res outp (fs w) = (None, f')"
        by simp
      show ?thesis
        by (rule saved [OF op rs sv']) (rule try_block_saved [OF op rs sv'])
    next
      case (Some e)
      with sv have sv': "save lib res outp (fs w) = (Some e, f')"
        by simp
      show ?thesis
        by (rule save_raises [OF op rs sv']) (rule try_block_save_raises [OF op rs sv'])
    qed
  qed
qed

text \<open>The \<^verbatim>\<open>except\<close> clauses print; they touch neither the file system nor the library.\<close>

lemma except_clauses_fs: "fs (snd (except_clauses lib x)) = fs (snd x)"
  by (cases "(lib, x)" rule: except_clauses.cases) (simp_all add: print_fs)

lemma except_clauses_calls: "calls (snd (except_clauses lib x)) = calls (snd x)"
  by (cases "(lib, x)" rule: except_clauses.cases) (simp_all add: print_calls)

lemma except_clauses_opened: "opened (snd (except_clauses lib x)) = opened (snd x)"
  by (cases "(lib, x)" rule: except_clauses.cases) (simp_all add: print_opened)

text \<open>The calls of a run, by the result of open and of the resize.\<close>

lemma run_calls_resize_raises:
  assumes "Image_open lib inp (fs w) = Inr img"
    and "resize lib img (size_or_default a) LANCZOS = Inl e"
  shows "new_calls w (snd (resize_image lib inp outp a w))
           = [Call_open inp, Call_resize img (size_or_default a) LANCZOS]"
    and "fs (snd (resize_image lib inp outp a w)) = fs w"
  by (simp_all add: resize_image_def except_clauses_calls except_clauses_fs
        try_block_resize_raises [OF assms] new_calls_def)

lemma run_calls_resized:
  assumes "Image_open lib inp (fs w) = Inr img"
    and "resize lib img (size_or_default a) LANCZOS = Inr res"
  shows "new_calls w (snd (resize_image lib inp outp a w))
           = [Call_open inp, Call_resize img (size_or_default a) LANCZOS, Call_save res outp]"
    and "fs (snd (resize_image lib inp outp a w)) = snd (save lib res outp (fs w))"
proof -
  obtain r f' where sv: "save lib res outp (fs w) = (r, f')"
    by (cases "save lib res outp (fs w)")
  have "new_calls w (snd (resize_image lib inp outp a w))
           = [Call_open inp, Call_resize img (size_or_default a) LANCZOS, Call_save res outp]
        \<and> fs (snd (resize_image lib inp outp a w)) = f'"
  proof (cases r)
    case None
    with sv have sv': "save lib res outp (fs w) = (None, f')"
      by simp
    show ?thesis
      by (simp add: resize_image_def except_clauses_calls except_clauses_fs
            try_block_saved [OF assms sv'] print_calls print_fs new_calls_def)
  next
    case (Some e)
    with sv have sv': "save lib res outp (fs w) = (Some e, f')"
      by simp
    show ?thesis
      by (simp add: resize_image_def except_clauses_calls except_clauses_fs
            try_block_save_raises [OF assms sv'] new_calls_def)
  qed
  with sv show "new_calls w (snd (resize_image lib inp outp a w))
           = [Call_open inp, Call_resize img (size_or_default a) LANCZOS, Call_save res outp]"
    and "fs (snd (resize_image lib inp outp a w)) = snd (save lib res outp (fs w))"
    by simp_all
qed

text \<open>
  A run reads the resize of the library at one point only: the target size and the filter
  \<open>LANCZOS\<close>. Another resize that agrees with it there gives the same run.
\<close>

lemma print_resize_update: "print (lib\<lparr>resize := g\<rparr>) s w = print lib s w"
  by (simp add: print_def printable_def)

lemma except_clauses_resize_update:
  "except_clauses (lib\<lparr>resize := g\<rparr>) x = except_clauses lib x"
  by (cases "(lib, x)" rule: except_clauses.cases) (simp_all add: print_resize_update)

lemma resize_image_resize_update:
  assumes "\<And>i. g i (size_or_default a) LANCZOS = resize lib i (size_or_default a) LANCZOS"
  shows "resize_image (lib\<lparr>resize := g\<rparr>) inp outp a w = resize_image lib inp outp a w"
proof -
  have "with_body (lib\<lparr>resize := g\<rparr>) i outp (size_or_default a) v
          = with_body lib i outp (size_or_default a) v" for i v
    by (simp add: with_body_def assms print_resize_update Let_def
          split: sum.split prod.split option.split)
  then have "try_block (lib\<lparr>resize := g\<rparr>) inp outp (size_or_default a) w
          = try_block lib inp outp (size_or_default a) w"
    by (simp add: try_block_def Let_def split: sum.split)
  then show ?thesis
    by (simp add: resize_image_def except_clauses_resize_update)
qed

text \<open>The small library meets the properties asked of a library.\<close>

lemma sim_pil_resize_exact: "resize_exact sim_pil"
  by (simp add: resize_exact_def sim_pil_def sim_resize_def)

lemma sim_pil_raises_Exceptions: "raises_Exceptions sim_pil"
  by (simp add: raises_Exceptions_def sim_pil_def sim_open_def sim_resize_def sim_save_def
        no_such_file_def is_a_directory_def split: option.split)

lemma sim_pil_reads_back: "reads_back sim_pil"
  by (auto simp add: reads_back_def sim_pil_def sim_open_def sim_save_def split: if_splits)

lemma utf8_pil_raises_Exceptions: "raises_Exceptions utf8_pil"
  using sim_pil_raises_Exceptions by (simp add: raises_Exceptions_def utf8_pil_def)

lemma utf8_pil_encodes_all: "encodes_all utf8_pil"
  by (simp add: encodes_all_def utf8_pil_def)

section \<open>The missing input file\<close>

text \<open>
  Claim C2. When the input path names no existing file, so that opening it raises
  \<^verbatim>\<open>FileNotFoundError\<close>, \<open>resize_image\<close> returns normally after printing the fixed
  not-found message; open is the only library call it made, so nothing was saved, and the
  file system is the one it started with.
\<close>

theorem resize_image_missing_input:
  assumes "Image_open lib input_path (fs w) = Inl (FileNotFoundError m)"
  shows "\<exists>w'. resize_image lib input_path output_path size_arg w = (None, w')
           \<and> stdout w' = stdout w @ [''Error: 'logo.png' not found.'']
           \<and> fs w' = fs w
           \<and> new_calls w w' = [Call_open input_path]"
  using assms
  by (simp add: resize_image_def try_block_open_raises print_printable [OF not_found_printable]
        new_calls_def)

theorem resize_image_missing_input_witness:
  "Image_open sim_pil ''missing.png'' (fs (sim_world (1024, 1024)))
     = Inl (no_such_file ''missing.png'')
   \<and> (\<exists>w'. resize_image sim_pil ''missing.png'' ''logo_512.png'' None (sim_world (1024, 1024))
              = (None, w')
          \<and> stdout w' = stdout (sim_world (1024, 1024)) @ [''Error: 'logo.png' not found.'']
          \<and> fs w' = fs (sim_world (1024, 1024))
          \<and> new_calls (sim_world (1024, 1024)) w' = [Call_open ''missing.png''])"
proof -
  have h: "Image_open sim_pil ''missing.png'' (fs (sim_world (1024, 1024)))
             = Inl (FileNotFoundError (str (no_such_file ''missing.png'')))"
    by (simp add: sim_pil_def sim_open_def sim_world_def no_such_file_def)
  have "str (no_such_file ''missing.png'') = s \<Longrightarrow> no_such_file ''missing.png'' = FileNotFoundError s"
    for s by (simp add: no_such_file_def)
  with h resize_image_missing_input [OF h] show ?thesis
    by simp
qed

text \<open>
  Claim C5. The not-found message is the literal \<^verbatim>\<open>Error: 'logo.png' not found.\<close>
  whatever the input path is: the path that was passed does not occur in it.
\<close>

theorem not_found_message_is_literal:
  assumes "Image_open lib input_path (fs w) = Inl (FileNotFoundError m)"
  shows "stdout (snd (resize_image lib input_path output_path size_arg w))
           = stdout w @ [''Error: 'logo.png' not found.'']"
  using assms
  by (simp add: resize_image_def try_block_open_raises print_printable [OF not_found_printable])

text \<open>
  The instance: \<^verbatim>\<open>photo.png\<close> is missing and \<^verbatim>\<open>logo.png\<close> exists, and the message
  names \<^verbatim>\<open>logo.png\<close>.
\<close>

theorem not_found_message_is_literal_witness:
  "Image_open sim_pil ''photo.png'' (fs (sim_world (64, 64))) = Inl (no_such_file ''photo.png'')
   \<and> Image_open sim_pil ''logo.png'' (fs (sim_world (64, 64))) = Inr (64, 64)
   \<and> stdout (snd (resize_image sim_pil ''photo.png'' ''photo_512.png'' None (sim_world (64, 64))))
       = [''Error: 'logo.png' not found.'']"
proof -
  have h: "Image_open sim_pil ''photo.png'' (fs (sim_world (64, 64)))
             = Inl (FileNotFoundError (str (no_such_file ''photo.png'')))"
    by (simp add: sim_pil_def sim_open_def sim_world_def no_such_file_def)
  have "Image_open sim_pil ''photo.png'' (fs (sim_world (64, 64))) = Inl (no_such_file ''photo.png'')"
    by (simp add: sim_pil_def sim_open_def sim_world_def)
  moreover have "Image_open sim_pil ''logo.png'' (fs (sim_world (64, 64))) = Inr (64, 64)"
    by (simp add: sim_pil_def sim_open_def sim_world_def)
  moreover have "stdout (sim_world (64, 64)) = []"
    by (simp add: sim_world_def)
  ultimately show ?thesis
    using not_found_message_is_literal [OF h, of "''photo_512.png''" None] by simp
qed

section \<open>The script run as the main program\<close>

text \<open>
  Claim C9. Run as \<^verbatim>\<open>__main__\<close>, the script is one call of \<open>resize_image\<close> with input
  \<^verbatim>\<open>logo.png\<close>, output \<^verbatim>\<open>logo_512.png\<close> and no size argument. When \<^verbatim>\<open>logo.png\<close> opens
  as a 1024 by 1024 image and the resize and the save complete, the calls made are one open
  of \<^verbatim>\<open>logo.png\<close>, one resize to (512, 512) and one save of the resized image, of size
  512 by 512, at \<^verbatim>\<open>logo_512.png\<close>; the line printed is the success message naming
  \<^verbatim>\<open>logo_512.png\<close>.
\<close>

theorem script_main_scenario:
  assumes exact: "resize_exact lib"
    and opn: "Image_open lib ''logo.png'' (fs w) = Inr img"
    and big: "img_size lib img = (1024, 1024)"
    and rsz: "resize lib img (512, 512) LANCZOS = Inr res"
    and sav: "save lib res ''logo_512.png'' (fs w) = (None, f')"
  shows "script ''__main__'' lib w = resize_image lib ''logo.png'' ''logo_512.png'' None w
     \<and> (\<exists>w'. script ''__main__'' lib w = (None, w')
           \<and> new_calls w w' = [Call_open ''logo.png'', Call_resize img (512, 512) LANCZOS,
                                Call_save res ''logo_512.png'']
           \<and> img_size lib res = (512, 512)
           \<and> fs w' = f'
           \<and> stdout w' = stdout w @ [''Success! Image saved as logo_512.png''])"
proof -
  have sz: "img_size lib res = (512, 512)"
    using exact rsz unfolding resize_exact_def by force
  have enc: "printable lib (''Success! Image saved as '' @ ''logo_512.png'')"
    using success_logo_512_printable [of lib] by simp
  have "try_block lib ''logo.png'' ''logo_512.png'' (512, 512) w =
          (None, w\<lparr>fs := f',
             stdout := stdout w @ [''Success! Image saved as '' @ ''logo_512.png''],
             calls := calls w @ [Call_open ''logo.png'', Call_resize img (512, 512) LANCZOS,
                                 Call_save res ''logo_512.png'']\<rparr>)"
    by (rule try_block_success [OF opn rsz sav enc])
  then show ?thesis
    using sz by (simp add: script_def resize_image_def default_size_def new_calls_def)
qed

theorem script_main_scenario_witness:
  "resize_exact sim_pil
   \<and> Image_open sim_pil ''logo.png'' (fs (sim_world (1024, 1024))) = Inr (1024, 1024)
   \<and> img_size sim_pil (1024, 1024) = (1024, 1024)
   \<and> resize sim_pil (1024, 1024) (512, 512) LANCZOS = Inr (512, 512)
   \<and> (\<exists>w'. script ''__main__'' sim_pil (sim_world (1024, 1024)) = (None, w')
          \<and> new_calls (sim_world (1024, 1024)) w'
              = [Call_open ''logo.png'', Call_resize (1024, 1024) (512, 512) LANCZOS,
                 Call_save (512, 512) ''logo_512.png'']
          \<and> fs w' = \<lparr>dirs = [[]],
                       images = [(''logo_512.png'', (512, 512)), (''logo.png'', (1024, 1024))]\<rparr>
          \<and> stdout w' = [''Success! Image saved as logo_512.png''])"
proof -
  let ?w = "sim_world (1024, 1024)"
  let ?f = "\<lparr>dirs = [[]], images = [(''logo_512.png'', (512, 512)), (''logo.png'', (1024, 1024))]\<rparr>"
  have o: "Image_open sim_pil ''logo.png'' (fs ?w) = Inr (1024, 1024)"
    by (simp add: sim_pil_def sim_open_def sim_world_def)
  have b: "img_size sim_pil (1024, 1024) = (1024, 1024)"
    by (simp add: sim_pil_def)
  have r: "resize sim_pil (1024, 1024) (512, 512) LANCZOS = Inr (512, 512)"
    by (simp add: sim_pil_def sim_resize_def)
  have s: "save sim_pil (512, 512) ''logo_512.png'' (fs ?w) = (None, ?f)"
    by (simp add: sim_pil_def sim_save_def dirname_def sim_world_def)
  have e: "stdout ?w = []"
    by (simp add: sim_world_def)
  from script_main_scenario [OF sim_pil_resize_exact o b r s] obtain w' where
    "script ''__main__'' sim_pil ?w = (None, w')"
    and "new_calls ?w w' = [Call_open ''logo.png'', Call_resize (1024, 1024) (512, 512) LANCZOS,
                            Call_save (512, 512) ''logo_512.png'']"
    and "fs w' = ?f"
    and "stdout w' = stdout ?w @ [''Success! Image saved as logo_512.png'']"
    by blast
  with e have "\<exists>w'. script ''__main__'' sim_pil ?w = (None, w')
          \<and> new_calls ?w w' = [Call_open ''logo.png'', Call_resize (1024, 1024) (512, 512) LANCZOS,
                                Call_save (512, 512) ''logo_512.png'']
          \<and> fs w' = ?f
          \<and> stdout w' = [''Success! Image saved as logo_512.png'']"
    by simp
  with sim_pil_resize_exact o b r show ?thesis
    by blast
qed

section \<open>Failures\<close>

text \<open>
  Claim C4, as it stands: for every input the function handles the two error kinds, never
  lets a failure out, and always prints exactly one message. It fails on the code: the
  \<^verbatim>\<open>print\<close> calls of the two \<^verbatim>\<open>except\<close> clauses are not guarded, so an exception
  that one of them raises leaves the function. In the run below the input path is a
  directory whose name has a character beyond ASCII; open raises \<^verbatim>\<open>IsADirectoryError\<close>
  with the path in its text, the second clause catches it, and its \<^verbatim>\<open>print\<close> raises
  \<^verbatim>\<open>UnicodeEncodeError\<close> on the ASCII console: the exception leaves \<open>resize_image\<close>
  and the script, and no line is printed.
\<close>

theorem resize_image_always_reports_counterexample:
  "raises_Exceptions sim_pil
   \<and> Image_open sim_pil cafe (fs (cafe_world (8, 8))) = Inl (is_a_directory cafe)
   \<and> \<not> printable sim_pil (''An error occurred: '' @ str (is_a_directory cafe))
   \<and> resize_image sim_pil cafe ''logo_512.png'' None (cafe_world (8, 8))
       = (Some (OtherException ''ascii codec can't encode character: ordinal not in range(128)''),
          (cafe_world (8, 8))\<lparr>calls := [Call_open cafe]\<rparr>)
   \<and> fst (resize_image sim_pil cafe ''logo_512.png'' None (cafe_world (8, 8))) \<noteq> None
   \<and> stdout (snd (resize_image sim_pil cafe ''logo_512.png'' None (cafe_world (8, 8)))) = []"
proof -
  let ?w = "cafe_world (8, 8)"
  have o: "Image_open sim_pil cafe (fs ?w) = Inl (is_a_directory cafe)"
    by (simp add: sim_pil_def sim_open_def cafe_world_def cafe_def)
  have n: "\<not> printable sim_pil (''An error occurred: '' @ str (is_a_directory cafe))"
    by (simp add: printable_def is_ascii_def sim_pil_def is_a_directory_def cafe_def)
  have e: "encode_error sim_pil t = ''ascii codec can't encode character: ordinal not in range(128)''"
    for t by (simp add: sim_pil_def)
  have h: "except_clauses sim_pil (Some (is_a_directory cafe), v)
          = (Some (OtherException ''ascii codec can't encode character: ordinal not in range(128)''), v)"
    for v
  proof -
    have "except_clauses sim_pil (Some (is_a_directory cafe), v)
            = except_clauses sim_pil (Some (OtherException (str (is_a_directory cafe))), v)"
      by (simp add: is_a_directory_def)
    also have "\<dots> = print sim_pil (''An error occurred: '' @ str (is_a_directory cafe)) v"
      by (simp only: except_clauses.simps str.simps)
    also have "\<dots> = (Some (OtherException (encode_error sim_pil
                          (''An error occurred: '' @ str (is_a_directory cafe)))), v)"
      by (rule print_not_printable [OF n])
    also have "\<dots> = (Some (OtherException
                 ''ascii codec can't encode character: ordinal not in range(128)''), v)"
      by (simp only: e)
    finally show ?thesis .
  qed
  have run: "resize_image sim_pil cafe ''logo_512.png'' None ?w
       = (Some (OtherException ''ascii codec can't encode character: ordinal not in range(128)''),
          ?w\<lparr>calls := [Call_open cafe]\<rparr>)"
    unfolding resize_image_def try_block_open_raises [OF o] h
    by (simp add: cafe_world_def)
  have "fst (resize_image sim_pil cafe ''logo_512.png'' None ?w) \<noteq> None"
    and "stdout (snd (resize_image sim_pil cafe ''logo_512.png'' None ?w)) = []"
    unfolding run by (simp_all add: cafe_world_def)
  with sim_pil_raises_Exceptions o n run show ?thesis
    by (intro conjI)
qed

text \<open>
  What the \<^verbatim>\<open>except\<close> clauses do with an exception of the two error kinds, when the
  console can encode the generic message.
\<close>

lemma reports_failure:
  assumes e: "is_Exception e"
    and t: "try_block lib inp outp (size_or_default size_arg) w = (Some e, w1)"
    and out: "stdout w1 = stdout w"
    and enc: "\<And>m. e = OtherException m \<Longrightarrow> printable lib (''An error occurred: '' @ m)"
  shows "\<exists>w' msg. resize_image lib inp outp size_arg w = (None, w')
           \<and> stdout w' = stdout w @ [msg]
           \<and> (\<forall>m. e = FileNotFoundError m \<longrightarrow> msg = ''Error: 'logo.png' not found.'')
           \<and> (\<forall>m. e = OtherException m \<longrightarrow> msg = ''An error occurred: '' @ m)"
proof (cases e)
  case (FileNotFoundError m)
  have "resize_image lib inp outp size_arg w
          = (None, w1\<lparr>stdout := stdout w1 @ [''Error: 'logo.png' not found.'']\<rparr>)"
    by (simp add: resize_image_def t FileNotFoundError print_printable [OF not_found_printable])
  with FileNotFoundError out show ?thesis
    by simp
next
  case (OtherException m)
  have "resize_image lib inp outp size_arg w
          = (None, w1\<lparr>stdout := stdout w1 @ [''An error occurred: '' @ m]\<rparr>)"
    using enc [OF OtherException] by (simp add: resize_image_def t OtherException print_def)
  with OtherException out show ?thesis
    by simp
next
  case (NonException m)
  with e show ?thesis
    by simp
qed

text \<open>
  Claim C4, amended. With a library that raises only the two error kinds and a console that
  can encode the message to print, \<open>resize_image\<close> returns normally, for every input
  path, output path, size and world, and has printed exactly one line: the success message
  when open, resample and save all complete; the not-found message when the first
  exception raised is a \<^verbatim>\<open>FileNotFoundError\<close>; the generic message with the text of the
  exception when it is another. The script run as the main program is this function
  called once and ends as the call ends.
\<close>

theorem resize_image_always_reports:
  assumes exc: "raises_Exceptions lib"
    and enc_ok: "first_failure lib input_path output_path (size_or_default size_arg) (fs w) = None
            \<longrightarrow> printable lib (''Success! Image saved as '' @ output_path)"
    and enc_err: "\<forall>m. first_failure lib input_path output_path (size_or_default size_arg) (fs w)
                    = Some (OtherException m)
            \<longrightarrow> printable lib (''An error occurred: '' @ m)"
  shows "(\<exists>w' msg. resize_image lib input_path output_path size_arg w = (None, w')
            \<and> stdout w' = stdout w @ [msg]
            \<and> (first_failure lib input_path output_path (size_or_default size_arg) (fs w) = None
                 \<longrightarrow> msg = ''Success! Image saved as '' @ output_path)
            \<and> (\<forall>m. first_failure lib input_path output_path (size_or_default size_arg) (fs w)
                       = Some (FileNotFoundError m)
                 \<longrightarrow> msg = ''Error: 'logo.png' not found.'')
            \<and> (\<forall>m. first_failure lib input_path output_path (size_or_default size_arg) (fs w)
                       = Some (OtherException m)
                 \<longrightarrow> msg = ''An error occurred: '' @ m))
         \<and> script ''__main__'' lib w = resize_image lib ''logo.png'' ''logo_512.png'' None w"
proof
  let ?sz = "size_or_default size_arg"
  let ?ff = "first_failure lib input_path output_path ?sz (fs w)"
  let ?goal = "\<exists>w' msg. resize_image lib input_path output_path size_arg w = (None, w')
            \<and> stdout w' = stdout w @ [msg]
            \<and> (?ff = None \<longrightarrow> msg = ''Success! Image saved as '' @ output_path)
            \<and> (\<forall>m. ?ff = Some (FileNotFoundError m) \<longrightarrow> msg = ''Error: 'logo.png' not found.'')
            \<and> (\<forall>m. ?ff = Some (OtherException m) \<longrightarrow> msg = ''An error occurred: '' @ m)"
  have failed: ?goal
    if ff: "?ff = Some e" and ex: "is_Exception e"
      and t: "try_block lib input_path output_path ?sz w = (Some e, w1)"
      and out: "stdout w1 = stdout w"
    for e w1
  proof -
    have "printable lib (''An error occurred: '' @ m)" if "e = OtherException m" for m
      using enc_err ff that by simp
    from reports_failure [OF ex t out this] ff show ?thesis
      by simp
  qed
  show ?goal
  proof (cases rule: try_block_cases [of lib input_path w output_path ?sz])
    case (open_raises e)
    have "is_Exception e"
      using exc open_raises(1) unfolding raises_Exceptions_def by blast
    moreover have "?ff = Some e"
      by (simp add: first_failure_def open_raises(1))
    ultimately show ?thesis
      using failed [OF _ _ open_raises(2)] by simp
  next
    case (resize_raises img e)
    have "is_Exception e"
      using exc resize_raises(2) unfolding raises_Exceptions_def by blast
    moreover have "?ff = Some e"
      by (simp add: first_failure_def resize_raises(1,2))
    ultimately show ?thesis
      using failed [OF _ _ resize_raises(3)] by simp
  next
    case (save_raises img res e f')
    have "is_Exception e"
      using exc save_raises(3) unfolding raises_Exceptions_def by blast
    moreover have "?ff = Some e"
      by (simp add: first_failure_def save_raises(1,2,3))
    ultimately show ?thesis
      using failed [OF _ _ save_raises(4)] by simp
  next
    case (saved img res f')
    have ff: "?ff = None"
      by (simp add: first_failure_def saved(1,2,3))
    have "resize_image lib input_path output_path size_arg w =
        (None, w\<lparr>fs := f', stdout := stdout w @ [''Success! Image saved as '' @ output_path],
           calls := calls w @ [Call_open input_path, Call_resize img ?sz LANCZOS,
                               Call_save res output_path]\<rparr>)"
      using enc_ok ff by (simp add: resize_image_def saved(4) print_def)
    with ff show ?thesis
      by simp
  qed
next
  show "script ''__main__'' lib w = resize_image lib ''logo.png'' ''logo_512.png'' None w"
    by (simp add: script_def)
qed

text \<open>
  Three instances. On the ASCII console, the main program's call on an existing
  \<^verbatim>\<open>logo.png\<close> prints the success message, and a call on a missing file prints the
  not-found message. The run of the counterexample on a console whose encoding has every
  character prints the generic message with the path of the directory, and returns.
\<close>

theorem resize_image_always_reports_witness:
  "raises_Exceptions sim_pil
   \<and> first_failure sim_pil ''logo.png'' ''logo_512.png'' (size_or_default None)
         (fs (sim_world (1024, 1024))) = None
   \<and> printable sim_pil (''Success! Image saved as '' @ ''logo_512.png'')
   \<and> (\<exists>w'. resize_image sim_pil ''logo.png'' ''logo_512.png'' None (sim_world (1024, 1024))
              = (None, w')
          \<and> stdout w' = [''Success! Image saved as logo_512.png''])
   \<and> script ''__main__'' sim_pil (sim_world (1024, 1024))
       = resize_image sim_pil ''logo.png'' ''logo_512.png'' None (sim_world (1024, 1024))
   \<and> first_failure sim_pil ''missing.png'' ''logo_512.png'' (size_or_default None)
         (fs (sim_world (1024, 1024))) = Some (no_such_file ''missing.png'')
   \<and> (\<exists>w'. resize_image sim_pil ''missing.png'' ''logo_512.png'' None (sim_world (1024, 1024))
              = (None, w')
          \<and> stdout w' = [''Error: 'logo.png' not found.''])
   \<and> raises_Exceptions utf8_pil
   \<and> first_failure utf8_pil cafe ''logo_512.png'' (size_or_default None) (fs (cafe_world (8, 8)))
       = Some (is_a_directory cafe)
   \<and> printable utf8_pil (''An error occurred: '' @ str (is_a_directory cafe))
   \<and> (\<exists>w'. resize_image utf8_pil cafe ''logo_512.png'' None (cafe_world (8, 8)) = (None, w')
          \<and> stdout w' = [''An error occurred: '' @ str (is_a_directory cafe)])"
proof -
  let ?v = "sim_world (1024, 1024)"
  let ?f1 = "first_failure sim_pil ''logo.png'' ''logo_512.png'' (size_or_default None) (fs ?v)"
  let ?f2 = "first_failure sim_pil ''missing.png'' ''logo_512.png'' (size_or_default None) (fs ?v)"
  have ev: "stdout ?v = []"
    by (simp add: sim_world_def)
  have f1: "?f1 = None"
    by (simp add: first_failure_def sim_pil_def sim_open_def sim_resize_def sim_save_def
          dirname_def sim_world_def default_size_def)
  have p1: "printable sim_pil (''Success! Image saved as '' @ ''logo_512.png'')"
    by (simp add: printable_def is_ascii_def)
  then have p1': "?f1 = None \<longrightarrow> printable sim_pil (''Success! Image saved as '' @ ''logo_512.png'')"
    by simp
  have q1: "\<forall>m. ?f1 = Some (OtherException m) \<longrightarrow> printable sim_pil (''An error occurred: '' @ m)"
    using f1 by simp
  from resize_image_always_reports [OF sim_pil_raises_Exceptions p1' q1]
  obtain w1 msg1 where "resize_image sim_pil ''logo.png'' ''logo_512.png'' None ?v = (None, w1)"
    and "stdout w1 = stdout ?v @ [msg1]"
    and "?f1 = None \<longrightarrow> msg1 = ''Success! Image saved as '' @ ''logo_512.png''"
    and sc: "script ''__main__'' sim_pil ?v
               = resize_image sim_pil ''logo.png'' ''logo_512.png'' None ?v"
    by (elim conjE exE) (rule that, assumption+)
  with f1 ev have i1: "\<exists>w'. resize_image sim_pil ''logo.png'' ''logo_512.png'' None ?v = (None, w')
          \<and> stdout w' = [''Success! Image saved as logo_512.png'']"
    by simp
  have f2: "?f2 = Some (no_such_file ''missing.png'')"
    by (simp add: first_failure_def sim_pil_def sim_open_def sim_world_def)
  have n2: "no_such_file ''missing.png'' = FileNotFoundError (str (no_such_file ''missing.png''))"
    by (simp add: no_such_file_def)
  have p2: "?f2 = None \<longrightarrow> printable sim_pil (''Success! Image saved as '' @ ''logo_512.png'')"
    using f2 by simp
  have q2: "\<forall>m. ?f2 = Some (OtherException m) \<longrightarrow> printable sim_pil (''An error occurred: '' @ m)"
    using f2 by (simp add: no_such_file_def)
  from resize_image_always_reports [OF sim_pil_raises_Exceptions p2 q2]
  obtain w2 msg2 where "resize_image sim_pil ''missing.png'' ''logo_512.png'' None ?v = (None, w2)"
    and "stdout w2 = stdout ?v @ [msg2]"
    and "\<forall>m. ?f2 = Some (FileNotFoundError m) \<longrightarrow> msg2 = ''Error: 'logo.png' not found.''"
    by (elim conjE exE) (rule that, assumption+)
  moreover from f2 n2 have "?f2 = Some (FileNotFoundError (str (no_such_file ''missing.png'')))"
    by simp
  ultimately have i2: "\<exists>w'. resize_image sim_pil ''missing.png'' ''logo_512.png'' None ?v = (None, w')
          \<and> stdout w' = [''Error: 'logo.png' not found.'']"
    using ev by auto
  let ?w = "cafe_world (8, 8)"
  let ?ff = "first_failure utf8_pil cafe ''logo_512.png'' (size_or_default None) (fs ?w)"
  have o: "Image_open utf8_pil cafe (fs ?w) = Inl (is_a_directory cafe)"
    by (simp add: utf8_pil_def sim_pil_def sim_open_def cafe_world_def cafe_def)
  have ff: "?ff = Some (is_a_directory cafe)"
    by (simp add: first_failure_def o)
  have d: "is_a_directory cafe = OtherException (str (is_a_directory cafe))"
    by (simp add: is_a_directory_def)
  have a: "printable utf8_pil t" for t
    by (rule encodes_all_printable [OF utf8_pil_encodes_all])
  have e: "stdout ?w = []"
    by (simp add: cafe_world_def)
  have p3: "?ff = None \<longrightarrow> printable utf8_pil (''Success! Image saved as '' @ ''logo_512.png'')"
    and q3: "\<forall>m. ?ff = Some (OtherException m) \<longrightarrow> printable utf8_pil (''An error occurred: '' @ m)"
    using a by blast+
  from resize_image_always_reports [OF utf8_pil_raises_Exceptions p3 q3]
  obtain w' msg where run: "resize_image utf8_pil cafe ''logo_512.png'' None ?w = (None, w')"
    and out: "stdout w' = stdout ?w @ [msg]"
    and m: "\<forall>m. ?ff = Some (OtherException m) \<longrightarrow> msg = ''An error occurred: '' @ m"
    by blast
  from ff d have "?ff = Some (OtherException (str (is_a_directory cafe)))"
    by simp
  with m have "msg = ''An error occurred: '' @ str (is_a_directory cafe)"
    by blast
  with run out e have i3: "\<exists>w'. resize_image utf8_pil cafe ''logo_512.png'' None ?w = (None, w')
          \<and> stdout w' = [''An error occurred: '' @ str (is_a_directory cafe)]"
    by simp
  from sim_pil_raises_Exceptions f1 p1 i1 sc f2 i2 utf8_pil_raises_Exceptions ff a i3
  show ?thesis
    by (intro conjI)
qed

section \<open>A failed save\<close>

text \<open>
  What the \<^verbatim>\<open>except\<close> clauses print depends on the class of the exception alone, not
  on the call that raised it: an exception of save that is not a \<^verbatim>\<open>FileNotFoundError\<close>
  is reported with its text, when the console can encode it, and a
  \<^verbatim>\<open>FileNotFoundError\<close> of save takes the first clause.
\<close>

lemma save_raises_other_exception:
  assumes "Image_open lib inp (fs w) = Inr img"
    and "resize lib img (size_or_default size_arg) LANCZOS = Inr res"
    and "save lib res outp (fs w) = (Some (OtherException t), f')"
    and "printable lib (''An error occurred: '' @ t)"
  shows "stdout (snd (resize_image lib inp outp size_arg w)) = stdout w @ [''An error occurred: '' @ t]"
  using assms(4)
  by (simp add: resize_image_def try_block_save_raises [OF assms(1-3)] print_def)

lemma save_raises_FileNotFoundError:
  assumes "Image_open lib inp (fs w) = Inr img"
    and "resize lib img (size_or_default size_arg) LANCZOS = Inr res"
    and "save lib res outp (fs w) = (Some (FileNotFoundError t), f')"
  shows "stdout (snd (resize_image lib inp outp size_arg w))
           = stdout w @ [''Error: 'logo.png' not found.'']"
  by (simp add: resize_image_def try_block_save_raises [OF assms]
        print_printable [OF not_found_printable])

text \<open>
  Claim C3. The claim: with an existing, valid input image and an output path that cannot be
  written, for one in a directory that does not exist, the generic message with the text of
  the error is printed, and not the not-found message. The run below has \<^verbatim>\<open>logo.png\<close>
  present and valid, and the output path \<^verbatim>\<open>missing_dir/logo_512.png\<close> in a directory
  that does not exist: open and resize succeed, save raises
  \<^verbatim>\<open>FileNotFoundError\<close> and leaves the file system as it was, and the one line printed
  is \<^verbatim>\<open>Error: 'logo.png' not found.\<close>, not the generic message.
\<close>

theorem save_into_missing_directory_prints_not_found:
  "Image_open sim_pil ''logo.png'' (fs (sim_world (1024, 1024))) = Inr (1024, 1024)
   \<and> resize sim_pil (1024, 1024) (size_or_default None) LANCZOS = Inr (512, 512)
   \<and> save sim_pil (512, 512) ''missing_dir/logo_512.png'' (fs (sim_world (1024, 1024)))
       = (Some (no_such_file ''missing_dir/logo_512.png''), fs (sim_world (1024, 1024)))
   \<and> resize_image sim_pil ''logo.png'' ''missing_dir/logo_512.png'' None (sim_world (1024, 1024))
       = (None,
          \<lparr>fs = \<lparr>dirs = [[]], images = [(''logo.png'', (1024, 1024))]\<rparr>,
           opened = [],
           stdout = [''Error: 'logo.png' not found.''],
           calls = [Call_open ''logo.png'', Call_resize (1024, 1024) (512, 512) LANCZOS,
                    Call_save (512, 512) ''missing_dir/logo_512.png'']\<rparr>)"
proof -
  let ?w = "sim_world (1024, 1024)"
  have o: "Image_open sim_pil ''logo.png'' (fs ?w) = Inr (1024, 1024)"
    by (simp add: sim_pil_def sim_open_def sim_world_def)
  have r: "resize sim_pil (1024, 1024) (size_or_default None) LANCZOS = Inr (512, 512)"
    by (simp add: sim_pil_def sim_resize_def default_size_def)
  have s: "save sim_pil (512, 512) ''missing_dir/logo_512.png'' (fs ?w)
             = (Some (no_such_file ''missing_dir/logo_512.png''), fs ?w)"
    by (simp add: sim_pil_def sim_save_def dirname_def sim_world_def)
  have run: "resize_image sim_pil ''logo.png'' ''missing_dir/logo_512.png'' None ?w
       = (None,
          \<lparr>fs = \<lparr>dirs = [[]], images = [(''logo.png'', (1024, 1024))]\<rparr>,
           opened = [],
           stdout = [''Error: 'logo.png' not found.''],
           calls = [Call_open ''logo.png'', Call_resize (1024, 1024) (512, 512) LANCZOS,
                    Call_save (512, 512) ''missing_dir/logo_512.png'']\<rparr>)"
    unfolding resize_image_def try_block_save_raises [OF o r s]
    by (simp add: no_such_file_def print_printable [OF not_found_printable] sim_world_def
          default_size_def)
  from o r s run show ?thesis
    by blast
qed

section \<open>The image that is written\<close>

text \<open>
  Claim C1. With a valid input image (open returns it), a target size (w, h) of positive
  width and height, and a library whose resize and save complete: \<open>resize_image\<close> makes
  the three calls open, resize of the opened image to (w, h), and save of the resized image
  at the output path; the file system it leaves is the one that save left; and the file at
  the output path opens as an image of size exactly (w, h). The library is asked that its
  resize returns images of the size asked for, and that a saved file opens as an image of
  the size saved.
\<close>

theorem resize_image_output_dims:
  assumes exact: "resize_exact lib" and readable: "reads_back lib" and pos: "0 < w" "0 < h"
    and opn: "Image_open lib input_path (fs wd) = Inr img"
    and rsz: "resize lib img (w, h) LANCZOS = Inr res"
    and sav: "save lib res output_path (fs wd) = (None, f')"
  shows "\<exists>r wd' out. resize_image lib input_path output_path (Some (w, h)) wd = (r, wd')
           \<and> new_calls wd wd' = [Call_open input_path, Call_resize img (w, h) LANCZOS,
                                  Call_save res output_path]
           \<and> img_size lib res = (w, h)
           \<and> fs wd' = f'
           \<and> Image_open lib output_path (fs wd') = Inr out
           \<and> img_size lib out = (w, h)"
proof -
  let ?run = "resize_image lib input_path output_path (Some (w, h)) wd"
  have rsz': "resize lib img (size_or_default (Some (w, h))) LANCZOS = Inr res"
    using rsz by simp
  have c: "new_calls wd (snd ?run) = [Call_open input_path, Call_resize img (w, h) LANCZOS,
                                      Call_save res output_path]"
    using run_calls_resized(1) [OF opn rsz', of output_path] by simp
  have f: "fs (snd ?run) = f'"
    using run_calls_resized(2) [OF opn rsz', of output_path] sav by simp
  have sz: "img_size lib res = (w, h)"
    using exact pos rsz unfolding resize_exact_def by blast
  from readable sav obtain out where "Image_open lib output_path f' = Inr out"
    and "img_size lib out = img_size lib res"
    unfolding reads_back_def by blast
  with sz f have "Image_open lib output_path (fs (snd ?run)) = Inr out \<and> img_size lib out = (w, h)"
    by simp
  with c f sz have "?run = (fst ?run, snd ?run)
      \<and> new_calls wd (snd ?run) = [Call_open input_path, Call_resize img (w, h) LANCZOS,
                                    Call_save res output_path]
      \<and> img_size lib res = (w, h)
      \<and> fs (snd ?run) = f'
      \<and> Image_open lib output_path (fs (snd ?run)) = Inr out
      \<and> img_size lib out = (w, h)"
    by simp
  then show ?thesis
    by blast
qed

text \<open>
  Two instances: an image of 1024 by 768 resized to (400, 300), and the one of the claim, an
  image that is already 512 by 512 resized to (512, 512).
\<close>

theorem resize_image_output_dims_witness:
  "resize_exact sim_pil \<and> reads_back sim_pil \<and> (0::int) < 400 \<and> (0::int) < 300 \<and> (0::int) < 512
   \<and> Image_open sim_pil ''logo.png'' (fs (sim_world (1024, 768))) = Inr (1024, 768)
   \<and> resize sim_pil (1024, 768) (400, 300) LANCZOS = Inr (400, 300)
   \<and> save sim_pil (400, 300) ''small.png'' (fs (sim_world (1024, 768)))
       = (None, \<lparr>dirs = [[]], images = [(''small.png'', (400, 300)), (''logo.png'', (1024, 768))]\<rparr>)
   \<and> (\<exists>r wd' out.
         resize_image sim_pil ''logo.png'' ''small.png'' (Some (400, 300)) (sim_world (1024, 768))
           = (r, wd')
         \<and> fs wd' = \<lparr>dirs = [[]],
                      images = [(''small.png'', (400, 300)), (''logo.png'', (1024, 768))]\<rparr>
         \<and> Image_open sim_pil ''small.png'' (fs wd') = Inr out
         \<and> img_size sim_pil out = (400, 300))
   \<and> Image_open sim_pil ''logo.png'' (fs (sim_world (512, 512))) = Inr (512, 512)
   \<and> resize sim_pil (512, 512) (512, 512) LANCZOS = Inr (512, 512)
   \<and> save sim_pil (512, 512) ''logo_512.png'' (fs (sim_world (512, 512)))
       = (None, \<lparr>dirs = [[]], images = [(''logo_512.png'', (512, 512)), (''logo.png'', (512, 512))]\<rparr>)
   \<and> (\<exists>r wd' out.
         resize_image sim_pil ''logo.png'' ''logo_512.png'' (Some (512, 512)) (sim_world (512, 512))
           = (r, wd')
         \<and> fs wd' = \<lparr>dirs = [[]],
                      images = [(''logo_512.png'', (512, 512)), (''logo.png'', (512, 512))]\<rparr>
         \<and> Image_open sim_pil ''logo_512.png'' (fs wd') = Inr out
         \<and> img_size sim_pil out = (512, 512))"
proof -
  have p: "(0::int) < 400" "(0::int) < 300" "(0::int) < 512"
    by simp_all
  have o1: "Image_open sim_pil ''logo.png'' (fs (sim_world (1024, 768))) = Inr (1024, 768)"
    by (simp add: sim_pil_def sim_open_def sim_world_def)
  have r1: "resize sim_pil (1024, 768) (400, 300) LANCZOS = Inr (400, 300)"
    by (simp add: sim_pil_def sim_resize_def)
  have s1: "save sim_pil (400, 300) ''small.png'' (fs (sim_world (1024, 768)))
       = (None, \<lparr>dirs = [[]], images = [(''small.png'', (400, 300)), (''logo.png'', (1024, 768))]\<rparr>)"
    by (simp add: sim_pil_def sim_save_def dirname_def sim_world_def)
  have o2: "Image_open sim_pil ''logo.png'' (fs (sim_world (512, 512))) = Inr (512, 512)"
    by (simp add: sim_pil_def sim_open_def sim_world_def)
  have r2: "resize sim_pil (512, 512) (512, 512) LANCZOS = Inr (512, 512)"
    by (simp add: sim_pil_def sim_resize_def)
  have s2: "save sim_pil (512, 512) ''logo_512.png'' (fs (sim_world (512, 512)))
       = (None, \<lparr>dirs = [[]], images = [(''logo_512.png'', (512, 512)), (''logo.png'', (512, 512))]\<rparr>)"
    by (simp add: sim_pil_def sim_save_def dirname_def sim_world_def)
  have i1: "\<exists>r wd' out.
         resize_image sim_pil ''logo.png'' ''small.png'' (Some (400, 300)) (sim_world (1024, 768))
           = (r, wd')
         \<and> fs wd' = \<lparr>dirs = [[]],
                      images = [(''small.png'', (400, 300)), (''logo.png'', (1024, 768))]\<rparr>
         \<and> Image_open sim_pil ''small.png'' (fs wd') = Inr out
         \<and> img_size sim_pil out = (400, 300)"
    using resize_image_output_dims [OF sim_pil_resize_exact sim_pil_reads_back p(1) p(2) o1 r1 s1]
    by blast
  have i2: "\<exists>r wd' out.
         resize_image sim_pil ''logo.png'' ''logo_512.png'' (Some (512, 512)) (sim_world (512, 512))
           = (r, wd')
         \<and> fs wd' = \<lparr>dirs = [[]],
                      images = [(''logo_512.png'', (512, 512)), (''logo.png'', (512, 512))]\<rparr>
         \<and> Image_open sim_pil ''logo_512.png'' (fs wd') = Inr out
         \<and> img_size sim_pil out = (512, 512)"
    using resize_image_output_dims [OF sim_pil_resize_exact sim_pil_reads_back p(3) p(3) o2 r2 s2]
    by blast
  from sim_pil_resize_exact sim_pil_reads_back p o1 r1 s1 i1 o2 r2 s2 i2 show ?thesis
    by (intro conjI)
qed

section \<open>The success message\<close>

text \<open>
  Claim C7, as it stands: whenever open, resample and save all complete, the success message
  with the output path is printed. It fails on the code: the \<^verbatim>\<open>print\<close> of the success
  message is inside the \<^verbatim>\<open>try\<close> block, so when the console cannot encode the
  output path the \<^verbatim>\<open>UnicodeEncodeError\<close> is caught by the second \<^verbatim>\<open>except\<close> clause.
  In the run below the image is saved at a path with a character beyond ASCII, the console
  is an ASCII one, and the one line printed is the generic error message.
\<close>

theorem resize_image_success_message_counterexample:
  "Image_open sim_pil ''logo.png'' (fs (sim_world (300, 200))) = Inr (300, 200)
   \<and> resize sim_pil (300, 200) (size_or_default (Some (64, 48))) LANCZOS = Inr (64, 48)
   \<and> save sim_pil (64, 48) (cafe @ ''.png'') (fs (sim_world (300, 200)))
       = (None, \<lparr>dirs = [[]], images = [(cafe @ ''.png'', (64, 48)), (''logo.png'', (300, 200))]\<rparr>)
   \<and> resize_image sim_pil ''logo.png'' (cafe @ ''.png'') (Some (64, 48)) (sim_world (300, 200))
       = (None,
          \<lparr>fs = \<lparr>dirs = [[]], images = [(cafe @ ''.png'', (64, 48)), (''logo.png'', (300, 200))]\<rparr>,
           opened = [],
           stdout = [''An error occurred: ascii codec can't encode character: ordinal not in range(128)''],
           calls = [Call_open ''logo.png'', Call_resize (300, 200) (64, 48) LANCZOS,
                    Call_save (64, 48) (cafe @ ''.png'')]\<rparr>)
   \<and> stdout (snd (resize_image sim_pil ''logo.png'' (cafe @ ''.png'') (Some (64, 48))
         (sim_world (300, 200))))
       \<noteq> [''Success! Image saved as '' @ cafe @ ''.png'']"
proof -
  let ?w = "sim_world (300, 200)"
  have o: "Image_open sim_pil ''logo.png'' (fs ?w) = Inr (300, 200)"
    by (simp add: sim_pil_def sim_open_def sim_world_def)
  have r: "resize sim_pil (300, 200) (size_or_default (Some (64, 48))) LANCZOS = Inr (64, 48)"
    by (simp add: sim_pil_def sim_resize_def)
  have s: "save sim_pil (64, 48) (cafe @ ''.png'') (fs ?w)
       = (None, \<lparr>dirs = [[]], images = [(cafe @ ''.png'', (64, 48)), (''logo.png'', (300, 200))]\<rparr>)"
    by (simp add: sim_pil_def sim_save_def dirname_def sim_world_def cafe_def)
  have n: "\<not> printable sim_pil (''Success! Image saved as '' @ cafe @ ''.png'')"
    by (simp add: printable_def is_ascii_def sim_pil_def cafe_def)
  have e: "encode_error sim_pil t = ''ascii codec can't encode character: ordinal not in range(128)''"
    for t by (simp add: sim_pil_def)
  have a: "printable sim_pil
      (''An error occurred: '' @ ''ascii codec can't encode character: ordinal not in range(128)'')"
    by (simp add: printable_def is_ascii_def)
  have run: "resize_image sim_pil ''logo.png'' (cafe @ ''.png'') (Some (64, 48)) ?w
       = (None,
          \<lparr>fs = \<lparr>dirs = [[]], images = [(cafe @ ''.png'', (64, 48)), (''logo.png'', (300, 200))]\<rparr>,
           opened = [],
           stdout = [''An error occurred: ascii codec can't encode character: ordinal not in range(128)''],
           calls = [Call_open ''logo.png'', Call_resize (300, 200) (64, 48) LANCZOS,
                    Call_save (64, 48) (cafe @ ''.png'')]\<rparr>)"
    unfolding resize_image_def try_block_saved [OF o r s] print_not_printable [OF n] e
    using print_printable [OF a] by (simp add: sim_world_def)
  have "stdout (snd (resize_image sim_pil ''logo.png'' (cafe @ ''.png'') (Some (64, 48)) ?w))
       \<noteq> [''Success! Image saved as '' @ cafe @ ''.png'']"
    unfolding run by simp
  with o r s run show ?thesis
    by (intro conjI)
qed

text \<open>
  Claim C7, amended. When open, resample and save all complete and the console can encode
  the success message, \<open>resize_image\<close> returns normally and the one line it prints is
  \<^verbatim>\<open>Success! Image saved as\<close> followed by the output path that was written.
\<close>

theorem resize_image_success_message:
  assumes "Image_open lib input_path (fs w) = Inr img"
    and "resize lib img (size_or_default size_arg) LANCZOS = Inr res"
    and "save lib res output_path (fs w) = (None, f')"
    and "printable lib (''Success! Image saved as '' @ output_path)"
  shows "\<exists>w'. resize_image lib input_path output_path size_arg w = (None, w')
           \<and> stdout w' = stdout w @ [''Success! Image saved as '' @ output_path]
           \<and> fs w' = f'"
  by (simp add: resize_image_def try_block_success [OF assms])

theorem resize_image_success_message_witness:
  "Image_open sim_pil ''logo.png'' (fs (sim_world (300, 200))) = Inr (300, 200)
   \<and> resize sim_pil (300, 200) (size_or_default (Some (64, 48))) LANCZOS = Inr (64, 48)
   \<and> save sim_pil (64, 48) ''thumb.png'' (fs (sim_world (300, 200)))
       = (None, \<lparr>dirs = [[]], images = [(''thumb.png'', (64, 48)), (''logo.png'', (300, 200))]\<rparr>)
   \<and> printable sim_pil (''Success! Image saved as '' @ ''thumb.png'')
   \<and> (\<exists>w'. resize_image sim_pil ''logo.png'' ''thumb.png'' (Some (64, 48)) (sim_world (300, 200))
              = (None, w')
          \<and> stdout w' = [''Success! Image saved as thumb.png''])"
proof -
  let ?w = "sim_world (300, 200)"
  have o: "Image_open sim_pil ''logo.png'' (fs ?w) = Inr (300, 200)"
    by (simp add: sim_pil_def sim_open_def sim_world_def)
  have r: "resize sim_pil (300, 200) (size_or_default (Some (64, 48))) LANCZOS = Inr (64, 48)"
    by (simp add: sim_pil_def sim_resize_def)
  have s: "save sim_pil (64, 48) ''thumb.png'' (fs ?w)
             = (None, \<lparr>dirs = [[]], images = [(''thumb.png'', (64, 48)), (''logo.png'', (300, 200))]\<rparr>)"
    by (simp add: sim_pil_def sim_save_def dirname_def sim_world_def)
  have a: "printable sim_pil (''Success! Image saved as '' @ ''thumb.png'')"
    by (simp add: printable_def is_ascii_def)
  have e: "stdout ?w = []"
    by (simp add: sim_world_def)
  from resize_image_success_message [OF o r s a] obtain w' where
    "resize_image sim_pil ''logo.png'' ''thumb.png'' (Some (64, 48)) ?w = (None, w')"
    and "stdout w' = stdout ?w @ [''Success! Image saved as '' @ ''thumb.png'']"
    by blast
  with e have "\<exists>w'. resize_image sim_pil ''logo.png'' ''thumb.png'' (Some (64, 48)) ?w = (None, w')
          \<and> stdout w' = [''Success! Image saved as thumb.png'']"
    by simp
  with o r s a show ?thesis
    by (intro conjI)
qed

section \<open>The resampling filter and the default size\<close>

text \<open>
  Claim C6. When the input image opens, the resample that \<open>resize_image\<close> uses is the
  one of the filter \<open>LANCZOS\<close>: it makes exactly one resize call, on the opened image, to
  the target size, with \<open>LANCZOS\<close>; when that call of the library returns an image, this
  image is the one saved at the output path, and the file system left is the one its save
  left; when it raises, nothing is saved. No other filter is used: replacing the resize of
  the library by any function that agrees with it on \<open>LANCZOS\<close> changes nothing in the
  run.
\<close>

theorem resize_image_resamples_with_lanczos:
  assumes opn: "Image_open lib input_path (fs w) = Inr img"
    and run: "resize_image lib input_path output_path size_arg w = (r, w')"
  shows "filter is_resize (new_calls w w')
           = [Call_resize img (size_or_default size_arg) LANCZOS]
     \<and> (\<forall>res. resize lib img (size_or_default size_arg) LANCZOS = Inr res
           \<longrightarrow> fs w' = snd (save lib res output_path (fs w))
              \<and> filter is_save (new_calls w w') = [Call_save res output_path])
     \<and> (\<forall>e. resize lib img (size_or_default size_arg) LANCZOS = Inl e
           \<longrightarrow> fs w' = fs w \<and> filter is_save (new_calls w w') = [])
     \<and> (\<forall>g. (\<forall>i s. g i s LANCZOS = resize lib i s LANCZOS)
           \<longrightarrow> resize_image (lib\<lparr>resize := g\<rparr>) input_path output_path size_arg w = (r, w'))"
proof -
  let ?sz = "size_or_default size_arg"
  have w': "w' = snd (resize_image lib input_path output_path size_arg w)"
    using run by simp
  have same: "resize_image (lib\<lparr>resize := g\<rparr>) input_path output_path size_arg w = (r, w')"
    if "\<forall>i s. g i s LANCZOS = resize lib i s LANCZOS" for g
    using resize_image_resize_update [of g size_arg lib input_path output_path w] that run
    by simp
  show ?thesis
  proof (cases "resize lib img ?sz LANCZOS")
    case (Inl e)
    have "new_calls w w' = [Call_open input_path, Call_resize img ?sz LANCZOS]"
      and "fs w' = fs w"
      unfolding w' by (rule run_calls_resize_raises [OF opn Inl])+
    with Inl same show ?thesis
      by simp
  next
    case (Inr res)
    have "new_calls w w' = [Call_open input_path, Call_resize img ?sz LANCZOS,
                            Call_save res output_path]"
      and "fs w' = snd (save lib res output_path (fs w))"
      unfolding w' by (rule run_calls_resized [OF opn Inr])+
    with Inr same show ?thesis
      by simp
  qed
qed

text \<open>
  The instance: the 1024 by 768 image resized to (256, 192), and a resize that raises on
  every filter but \<open>LANCZOS\<close>.
\<close>

theorem resize_image_resamples_with_lanczos_witness:
  "Image_open sim_pil ''logo.png'' (fs (sim_world (1024, 768))) = Inr (1024, 768)
   \<and> resize sim_pil (1024, 768) (size_or_default (Some (256, 192))) LANCZOS = Inr (256, 192)
   \<and> filter is_resize (new_calls (sim_world (1024, 768))
        (snd (resize_image sim_pil ''logo.png'' ''logo_512.png'' (Some (256, 192))
           (sim_world (1024, 768)))))
       = [Call_resize (1024, 768) (256, 192) LANCZOS]
   \<and> fs (snd (resize_image sim_pil ''logo.png'' ''logo_512.png'' (Some (256, 192))
             (sim_world (1024, 768))))
       = snd (save sim_pil (256, 192) ''logo_512.png'' (fs (sim_world (1024, 768))))
   \<and> resize_image
        (sim_pil\<lparr>resize := (\<lambda>i s flt. if flt = LANCZOS then sim_resize i s flt
                                       else Inl (OtherException ''another filter''))\<rparr>)
        ''logo.png'' ''logo_512.png'' (Some (256, 192)) (sim_world (1024, 768))
       = resize_image sim_pil ''logo.png'' ''logo_512.png'' (Some (256, 192)) (sim_world (1024, 768))"
proof -
  let ?w = "sim_world (1024, 768)"
  let ?run = "resize_image sim_pil ''logo.png'' ''logo_512.png'' (Some (256, 192)) ?w"
  let ?g = "\<lambda>i s flt. if flt = LANCZOS then sim_resize i s flt
                       else Inl (OtherException ''another filter'')"
  have o: "Image_open sim_pil ''logo.png'' (fs ?w) = Inr (1024, 768)"
    by (simp add: sim_pil_def sim_open_def sim_world_def)
  have rs: "resize sim_pil (1024, 768) (size_or_default (Some (256, 192))) LANCZOS = Inr (256, 192)"
    by (simp add: sim_pil_def sim_resize_def)
  have g: "\<forall>i s. ?g i s LANCZOS = resize sim_pil i s LANCZOS"
    by (simp add: sim_pil_def)
  have run: "?run = (fst ?run, snd ?run)"
    by simp
  note t = resize_image_resamples_with_lanczos [OF o run]
  have c1: "filter is_resize (new_calls ?w (snd ?run)) = [Call_resize (1024, 768) (256, 192) LANCZOS]"
    using t by simp
  have c2: "fs (snd ?run) = snd (save sim_pil (256, 192) ''logo_512.png'' (fs ?w))"
    using t rs by blast
  have "\<forall>g. (\<forall>i s. g i s LANCZOS = resize sim_pil i s LANCZOS)
           \<longrightarrow> resize_image (sim_pil\<lparr>resize := g\<rparr>) ''logo.png'' ''logo_512.png'' (Some (256, 192)) ?w
                = (fst ?run, snd ?run)"
    using t by (elim conjE)
  from this [THEN spec, of ?g] g
  have c3: "resize_image (sim_pil\<lparr>resize := ?g\<rparr>) ''logo.png'' ''logo_512.png'' (Some (256, 192)) ?w
              = ?run"
    by simp
  from o rs c1 c2 c3 show ?thesis
    by (intro conjI)
qed

text \<open>
  Claim C8. A call that omits the size argument runs with the size (512, 512), a pair of
  positive integers. It is the call with that size passed; when the input image opens, the
  one resize call it makes is to (512, 512), the image that this call returns is the one
  saved, and replacing the resize of the library by any function that agrees with it on the
  size (512, 512) changes nothing in the run.
\<close>

theorem default_size_is_512:
  assumes opn: "Image_open lib input_path (fs w) = Inr img"
  shows "size_or_default None = (512, 512)
     \<and> 0 < fst (size_or_default None) \<and> 0 < snd (size_or_default None)
     \<and> resize_image lib input_path output_path None w
         = resize_image lib input_path output_path (Some (512, 512)) w
     \<and> filter is_resize (new_calls w (snd (resize_image lib input_path output_path None w)))
         = [Call_resize img (512, 512) LANCZOS]
     \<and> (\<forall>res. resize lib img (512, 512) LANCZOS = Inr res
           \<longrightarrow> fs (snd (resize_image lib input_path output_path None w))
                = snd (save lib res output_path (fs w)))
     \<and> (\<forall>g. (\<forall>i flt. g i (512, 512) flt = resize lib i (512, 512) flt)
           \<longrightarrow> resize_image (lib\<lparr>resize := g\<rparr>) input_path output_path None w
                = resize_image lib input_path output_path None w)"
proof -
  let ?run = "resize_image lib input_path output_path None w"
  have d: "size_or_default None = (512, 512)"
    by (simp add: default_size_def)
  have same: "resize_image (lib\<lparr>resize := g\<rparr>) input_path output_path None w = ?run"
    if "\<forall>i flt. g i (512, 512) flt = resize lib i (512, 512) flt" for g
    using resize_image_resize_update [of g None lib input_path output_path w] that d
    by simp
  have eq: "?run = resize_image lib input_path output_path (Some (512, 512)) w"
    by (simp add: resize_image_def default_size_def)
  have calls: "filter is_resize (new_calls w (snd ?run)) = [Call_resize img (512, 512) LANCZOS]"
  proof (cases "resize lib img (size_or_default None) LANCZOS")
    case (Inl e)
    from run_calls_resize_raises(1) [OF opn Inl, of output_path] d show ?thesis
      by simp
  next
    case (Inr res)
    from run_calls_resized(1) [OF opn Inr, of output_path] d show ?thesis
      by simp
  qed
  have saved: "fs (snd ?run) = snd (save lib res output_path (fs w))"
    if "resize lib img (512, 512) LANCZOS = Inr res" for res
  proof -
    from that d have "resize lib img (size_or_default None) LANCZOS = Inr res"
      by simp
    from run_calls_resized(2) [OF opn this] show ?thesis .
  qed
  have p1: "0 < fst (size_or_default None)" and p2: "0 < snd (size_or_default None)"
    by (simp_all add: default_size_def)
  have saved': "\<forall>res. resize lib img (512, 512) LANCZOS = Inr res
           \<longrightarrow> fs (snd ?run) = snd (save lib res output_path (fs w))"
    using saved by blast
  have same': "\<forall>g. (\<forall>i flt. g i (512, 512) flt = resize lib i (512, 512) flt)
           \<longrightarrow> resize_image (lib\<lparr>resize := g\<rparr>) input_path output_path None w = ?run"
    using same by blast
  from d p1 p2 eq calls saved' same' show ?thesis
    by (intro conjI)
qed

text \<open>
  The instance: the main program's call on the 1024 by 1024 image, and a resize that
  raises on every size but (512, 512).
\<close>

theorem default_size_is_512_witness:
  "Image_open sim_pil ''logo.png'' (fs (sim_world (1024, 1024))) = Inr (1024, 1024)
   \<and> resize sim_pil (1024, 1024) (512, 512) LANCZOS = Inr (512, 512)
   \<and> filter is_resize (new_calls (sim_world (1024, 1024))
        (snd (resize_image sim_pil ''logo.png'' ''logo_512.png'' None (sim_world (1024, 1024)))))
       = [Call_resize (1024, 1024) (512, 512) LANCZOS]
   \<and> fs (snd (resize_image sim_pil ''logo.png'' ''logo_512.png'' None (sim_world (1024, 1024))))
       = \<lparr>dirs = [[]], images = [(''logo_512.png'', (512, 512)), (''logo.png'', (1024, 1024))]\<rparr>
   \<and> resize_image
        (sim_pil\<lparr>resize := (\<lambda>i s flt. if s = (512, 512) then sim_resize i s flt
                                       else Inl (OtherException ''another size''))\<rparr>)
        ''logo.png'' ''logo_512.png'' None (sim_world (1024, 1024))
       = resize_image sim_pil ''logo.png'' ''logo_512.png'' None (sim_world (1024, 1024))"
proof -
  let ?w = "sim_world (1024, 1024)"
  let ?run = "resize_image sim_pil ''logo.png'' ''logo_512.png'' None ?w"
  let ?g = "\<lambda>i s flt. if s = (512, 512) then sim_resize i s flt
                       else Inl (OtherException ''another size'')"
  have o: "Image_open sim_pil ''logo.png'' (fs ?w) = Inr (1024, 1024)"
    by (simp add: sim_pil_def sim_open_def sim_world_def)
  have rs: "resize sim_pil (1024, 1024) (512, 512) LANCZOS = Inr (512, 512)"
    by (simp add: sim_pil_def sim_resize_def)
  have sv: "snd (save sim_pil (512, 512) ''logo_512.png'' (fs ?w))
      = \<lparr>dirs = [[]], images = [(''logo_512.png'', (512, 512)), (''logo.png'', (1024, 1024))]\<rparr>"
    by (simp add: sim_pil_def sim_save_def dirname_def sim_world_def)
  have g: "\<forall>i flt. ?g i (512, 512) flt = resize sim_pil i (512, 512) flt"
    by (simp add: sim_pil_def)
  note t = default_size_is_512 [OF o, of "''logo_512.png''"]
  have c1: "filter is_resize (new_calls ?w (snd ?run)) = [Call_resize (1024, 1024) (512, 512) LANCZOS]"
    using t by (elim conjE)
  have "fs (snd ?run) = snd (save sim_pil (512, 512) ''logo_512.png'' (fs ?w))"
    using t rs by blast
  with sv have c2: "fs (snd ?run)
      = \<lparr>dirs = [[]], images = [(''logo_512.png'', (512, 512)), (''logo.png'', (1024, 1024))]\<rparr>"
    by simp
  have "\<forall>g. (\<forall>i flt. g i (512, 512) flt = resize sim_pil i (512, 512) flt)
           \<longrightarrow> resize_image (sim_pil\<lparr>resize := g\<rparr>) ''logo.png'' ''logo_512.png'' None ?w = ?run"
    using t by (elim conjE)
  from this [THEN spec, of ?g] g
  have c3: "resize_image (sim_pil\<lparr>resize := ?g\<rparr>) ''logo.png'' ''logo_512.png'' None ?w = ?run"
    by simp
  from o rs c1 c2 c3 show ?thesis
    by (intro conjI)
qed

section \<open>Resources\<close>

lemma with_body_opened: "opened (snd (with_body lib img outp sz w)) = opened w"
  by (simp add: with_body_def log_call_def print_def Let_def
        split: sum.splits prod.splits option.splits)

lemma try_block_opened: "opened (snd (try_block lib inp outp sz w)) = opened w"
proof (cases "Image_open lib inp (fs w)")
  case (Inl e)
  then show ?thesis
    by (simp add: try_block_def log_call_def)
next
  case (Inr img)
  obtain r w' where b: "with_body lib img outp sz (enter img (log_call (Call_open inp) w)) = (r, w')"
    by (cases "with_body lib img outp sz (enter img (log_call (Call_open inp) w))")
  have "opened w' = img # opened w"
    using with_body_opened [of lib img outp sz "enter img (log_call (Call_open inp) w)"] b
    by (simp add: enter_def log_call_def)
  with Inr b show ?thesis
    by (simp add: try_block_def exit_def log_call_def)
qed

text \<open>
  Claim C10. On every exit path of \<open>resize_image\<close> (success, the not-found message, the
  generic message, or an exception that leaves the function) the image opened by the
  \<^verbatim>\<open>with\<close> statement has been closed: the images held after the call are those held
  before it.
\<close>

theorem resize_image_releases:
  "opened (snd (resize_image lib input_path output_path size_arg w)) = opened w"
  by (simp add: resize_image_def except_clauses_opened try_block_opened)

end
